theory Spec2Isabelle
  imports Main
begin

section \<open>JavaScript values\<close>

text \<open>
  The values that flow through \<^verbatim>\<open>src/util/auth.js\<close>: the identity object handed over by the
  identity provider, the React state cell \<^verbatim>\<open>user\<close> (initially \<^verbatim>\<open>null\<close>, later \<^verbatim>\<open>false\<close> or an
  object), the result of the user-record query and the merged user object. They are plain data
  (no function values). An object is the list of its own enumerable properties in insertion
  order; numbers are integers here, since no number is computed with.
\<close>

datatype jsval =
    JUndefined
  | JNull
  | JBool bool
  | JNum int
  | JStr string
  | JArr "jsval list"
  | JObj "(string \<times> jsval) list"

type_synonym obj = "(string \<times> jsval) list"

text \<open>What the source throws or rejects with.\<close>

datatype js_error =
    TypeError
  | CustomError string string
  | Rejected jsval

text \<open>\<^verbatim>\<open>if (v)\<close>, \<^verbatim>\<open>!v\<close>, \<^verbatim>\<open>a && b\<close>: the falsy values are undefined, null, false, 0 and "".\<close>

fun truthy :: "jsval \<Rightarrow> bool" where
  "truthy JUndefined = False"
| "truthy JNull = False"
| "truthy (JBool b) = b"
| "truthy (JNum n) = (n \<noteq> 0)"
| "truthy (JStr s) = (s \<noteq> [])"
| "truthy (JArr xs) = True"
| "truthy (JObj fs) = True"

text \<open>
  A property read \<^verbatim>\<open>v.k\<close>. Reading a property of undefined or null throws a TypeError; an
  object gives its own property or undefined. For the other values the read goes to the
  prototype, which has none of the names this program reads from a value it did not build
  itself (\<^verbatim>\<open>email\<close>, \<^verbatim>\<open>email_verified\<close>, \<^verbatim>\<open>name\<close>, \<^verbatim>\<open>picture\<close>, \<^verbatim>\<open>uid\<close>, \<^verbatim>\<open>stripePriceId\<close>,
  \<^verbatim>\<open>stripeSubscriptionStatus\<close>), so the result is undefined. The one exception is \<^verbatim>\<open>sub\<close> on
  a string, which is the built-in method \<^verbatim>\<open>String.prototype.sub\<close>: it is read as undefined
  here, and like undefined it has no \<^verbatim>\<open>split\<close> method.
\<close>

definition own_prop :: "obj \<Rightarrow> string \<Rightarrow> jsval" where
  "own_prop fs k = (case map_of fs k of None \<Rightarrow> JUndefined | Some v \<Rightarrow> v)"

fun get_prop :: "jsval \<Rightarrow> string \<Rightarrow> js_error + jsval" where
  "get_prop JUndefined k = Inl TypeError"
| "get_prop JNull k = Inl TypeError"
| "get_prop (JObj fs) k = Inr (own_prop fs k)"
| "get_prop v k = Inr JUndefined"

text \<open>An assignment \<^verbatim>\<open>o.k = v\<close>: an existing property keeps its place, a new one goes last.\<close>

fun obj_set :: "obj \<Rightarrow> string \<Rightarrow> jsval \<Rightarrow> obj" where
  "obj_set [] k v = [(k, v)]"
| "obj_set ((k', v') # fs) k v =
     (if k' = k then (k, v) # fs else (k', v') # obj_set fs k v)"

text \<open>Decimal digits of an index, for the keys of a string's or an array's elements.\<close>

fun digits :: "nat \<Rightarrow> string" where
  "digits n =
     (if n < 10 then [char_of (48 + n)]
      else digits (n div 10) @ [char_of (48 + n mod 10)])"

text \<open>
  The own enumerable properties that \<^verbatim>\<open>Object.assign\<close> copies from a source: those of an
  object, the elements of an array and the characters of a string under their indices,
  nothing for undefined, null, booleans and numbers.
\<close>

fun own_enumerable :: "jsval \<Rightarrow> obj" where
  "own_enumerable (JObj fs) = fs"
| "own_enumerable (JArr xs) = map (\<lambda>(i, x). (digits i, x)) (enumerate 0 xs)"
| "own_enumerable (JStr s) = map (\<lambda>(i, c). (digits i, JStr [c])) (enumerate 0 s)"
| "own_enumerable v = []"

definition object_assign :: "obj \<Rightarrow> jsval \<Rightarrow> obj" where
  "object_assign target source =
     fold (\<lambda>(k, v) t. obj_set t k v) (own_enumerable source) target"

text \<open>\<^verbatim>\<open>s.split(c)\<close> for a one-character separator: never empty, \<^verbatim>\<open>"".split("|")\<close> is \<^verbatim>\<open>[""]\<close>.\<close>

fun split_on :: "char \<Rightarrow> string \<Rightarrow> string list" where
  "split_on c [] = ['''']"
| "split_on c (x # xs) =
     (if x = c then [] # split_on c xs
      else (case split_on c xs of
              [] \<Rightarrow> [x] # []
            | w # ws \<Rightarrow> (x # w) # ws))"

text \<open>
  The method call \<^verbatim>\<open>v.split("|")\<close>: only a string has the method; on undefined and null the
  property read throws, on every other value \<^verbatim>\<open>v.split\<close> is undefined and the call throws.
\<close>

fun call_split :: "jsval \<Rightarrow> char \<Rightarrow> js_error + string list" where
  "call_split (JStr s) c = Inr (split_on c s)"
| "call_split v c = Inl TypeError"

section \<open>The merged user: \<^verbatim>\<open>usePrepareUser\<close>\<close>

definition MERGE_DB_USER :: bool where
  "MERGE_DB_USER = True"

record provider =
  p_id :: string
  p_name :: string

definition allProviders :: "provider list" where
  "allProviders =
     [\<lparr>p_id = ''auth0'', p_name = ''password''\<rparr>,
      \<lparr>p_id = ''google-oauth2'', p_name = ''google''\<rparr>,
      \<lparr>p_id = ''facebook'', p_name = ''facebook''\<rparr>,
      \<lparr>p_id = ''twitter'', p_name = ''twitter''\<rparr>,
      \<lparr>p_id = ''github'', p_name = ''github''\<rparr>]"

text \<open>The result of the \<^verbatim>\<open>useUser\<close> query hook: \<^verbatim>\<open>{status, data, error}\<close>.\<close>

record query =
  status :: jsval
  data :: jsval
  error :: jsval

text \<open>
  The body of the \<^verbatim>\<open>useMemo\<close> callback of \<^verbatim>\<open>usePrepareUser(user)\<close>, a function of the state
  \<^verbatim>\<open>user\<close> and of the query result \<^verbatim>\<open>userDbQuery\<close>. \<^verbatim>\<open>getFriendlyPlanId\<close> is imported from
  \<^verbatim>\<open>./prices\<close> and is a parameter here. \<^verbatim>\<open>Inl\<close> is a thrown exception. The call
  \<^verbatim>\<open>console.error(userDbQuery.error)\<close> of the \<^verbatim>\<open>"error"\<close> case writes to the console and
  returns nothing; it is not part of the returned value. The function is written in four
  pieces: the body itself, the provider lookup, the switch, and the \<^verbatim>\<open>"success"\<close> case.
\<close>

text \<open>Sequencing of steps that may throw: the first exception ends the computation.\<close>

definition bind_err :: "'e + 'a \<Rightarrow> ('a \<Rightarrow> 'e + 'b) \<Rightarrow> 'e + 'b" where
  "bind_err r f = (case r of Inl e \<Rightarrow> Inl e | Inr x \<Rightarrow> f x)"

text \<open>
  The \<^verbatim>\<open>"success"\<close> case of the switch once \<^verbatim>\<open>userDbQuery.data\<close> is not null:
  \<^verbatim>\<open>Object.assign\<close>, the destructuring of \<^verbatim>\<open>stripePriceId\<close> and
  \<^verbatim>\<open>stripeSubscriptionStatus\<close> (which throws on undefined), and the two derived fields.
  There is no \<^verbatim>\<open>return\<close> in this case: control leaves the switch and reaches
  \<^verbatim>\<open>return finalUser\<close>.
\<close>

definition mergeDbData :: "(jsval \<Rightarrow> jsval) \<Rightarrow> obj \<Rightarrow> jsval \<Rightarrow> js_error + jsval" where
  "mergeDbData getFriendlyPlanId finalUser0 dbData =
     (let finalUser1 = object_assign finalUser0 dbData in
      bind_err (get_prop dbData ''stripePriceId'') (\<lambda>stripePriceId.
      bind_err (get_prop dbData ''stripeSubscriptionStatus'') (\<lambda>stripeSubscriptionStatus.
        (let finalUser2 =
               (if truthy stripePriceId
                then obj_set finalUser1 ''planId'' (getFriendlyPlanId stripePriceId)
                else finalUser1);
             finalUser3 =
               obj_set finalUser2 ''planIsActive''
                 (JBool (stripeSubscriptionStatus \<in> set [JStr ''active'', JStr ''trialing'']))
         in Inr (JObj finalUser3)))))"

text \<open>
  \<^verbatim>\<open>if (MERGE_DB_USER) { switch (userDbQuery.status) { ... } } return finalUser;\<close>
  The cases compare with \<^verbatim>\<open>===\<close>; there is no default case.
\<close>

definition mergeDbUser :: "(jsval \<Rightarrow> jsval) \<Rightarrow> obj \<Rightarrow> query \<Rightarrow> js_error + jsval" where
  "mergeDbUser getFriendlyPlanId finalUser userDbQuery =
     (if MERGE_DB_USER then
        (if status userDbQuery = JStr ''idle'' then Inr JNull
         else if status userDbQuery = JStr ''loading'' then Inr JNull
         else if status userDbQuery = JStr ''error'' then Inr JNull
         else if status userDbQuery = JStr ''success'' then
           (if data userDbQuery = JNull then Inr JNull
            else mergeDbData getFriendlyPlanId finalUser (data userDbQuery))
         else Inr (JObj finalUser))
      else Inr (JObj finalUser))"

text \<open>
  \<^verbatim>\<open>allProviders.find((p) => p.id === providerId).name\<close>, with \<^verbatim>\<open>providerId\<close> the element 0
  of the split: \<^verbatim>\<open>find\<close> returns undefined when no entry matches, and reading \<^verbatim>\<open>.name\<close> of
  undefined throws.
\<close>

definition findProviderName :: "string list \<Rightarrow> js_error + string" where
  "findProviderName segments =
     (case segments of
        [] \<Rightarrow> Inl TypeError
      | providerId # rest \<Rightarrow>
          (case find (\<lambda>p. p_id p = providerId) allProviders of
             None \<Rightarrow> Inl TypeError
           | Some p \<Rightarrow> Inr (p_name p)))"

definition usePrepareUser :: "(jsval \<Rightarrow> jsval) \<Rightarrow> jsval \<Rightarrow> query \<Rightarrow> js_error + jsval" where
  "usePrepareUser getFriendlyPlanId user userDbQuery =
     (if \<not> truthy user then Inr user
      else
        bind_err (get_prop user ''sub'') (\<lambda>sub.
        bind_err (get_prop user ''email'') (\<lambda>email.
        bind_err (get_prop user ''email_verified'') (\<lambda>email_verified.
        bind_err (get_prop user ''name'') (\<lambda>name.
        bind_err (get_prop user ''picture'') (\<lambda>picture.
          (let finalUser =
                 [(''uid'', sub), (''email'', email), (''emailVerified'', email_verified),
                  (''name'', name), (''picture'', picture)]
           in
           bind_err (call_split sub CHR ''|'') (\<lambda>segments.
           bind_err (findProviderName segments) (\<lambda>providerName.
             mergeDbUser getFriendlyPlanId
               (obj_set finalUser ''providers'' (JArr [JStr providerName]))
               userDbQuery)))))))))"

text \<open>
  What the claims say in the spec's words: the three admissible states of the React cell
  \<^verbatim>\<open>user\<close> (\<^verbatim>\<open>null\<close>, \<^verbatim>\<open>false\<close>, an identity object), a populated merged user (an object
  that carries the five identity fields and the provider list), and the segment of
  \<^verbatim>\<open>subjectId\<close> before the first \<^verbatim>\<open>|\<close>.
\<close>

definition identity_state :: "jsval \<Rightarrow> bool" where
  "identity_state user =
     (case user of JNull \<Rightarrow> True | JBool b \<Rightarrow> \<not> b | JObj fs \<Rightarrow> True | _ \<Rightarrow> False)"

definition has_identity_fields :: "obj \<Rightarrow> bool" where
  "has_identity_fields fs =
     (set [''uid'', ''email'', ''emailVerified'', ''name'', ''picture'', ''providers'']
        \<subseteq> fst ` set fs)"

definition populated :: "jsval \<Rightarrow> bool" where
  "populated v = (case v of JObj fs \<Rightarrow> has_identity_fields fs | _ \<Rightarrow> False)"

definition subject_prefix :: "string \<Rightarrow> string" where
  "subject_prefix s = takeWhile (\<lambda>c. c \<noteq> CHR ''|'') s"

definition known_provider :: "jsval \<Rightarrow> bool" where
  "known_provider user =
     (case get_prop user ''sub'' of
        Inr (JStr s) \<Rightarrow> subject_prefix s \<in> set (map p_id allProviders)
      | _ \<Rightarrow> False)"

text \<open>A stand-in for \<^verbatim>\<open>getFriendlyPlanId\<close> of \<^verbatim>\<open>./prices\<close>, used at concrete inputs only.\<close>

definition sample_getFriendlyPlanId :: "jsval \<Rightarrow> jsval" where
  "sample_getFriendlyPlanId stripePriceId =
     (if stripePriceId = JStr ''price_basic'' then JStr ''basic'' else JUndefined)"

section \<open>The route guard: \<^verbatim>\<open>requireAuth\<close>\<close>

text \<open>
  One render of the component that \<^verbatim>\<open>requireAuth(Component)\<close> returns, with the effect that
  runs after it, as a function of \<^verbatim>\<open>auth.user\<close>: the element rendered and the calls made to
  \<^verbatim>\<open>history.replace\<close>.
\<close>

datatype ('c, 'p) element = PageLoader | Render 'c 'p

definition requireAuth :: "'c \<Rightarrow> 'p \<Rightarrow> jsval \<Rightarrow> ('c, 'p) element \<times> string list" where
  "requireAuth Component props auth_user =
     (let history_replace = (if auth_user = JBool False then [''/auth/signin''] else [])
      in if \<not> truthy auth_user then (PageLoader, history_replace)
         else (Render Component props, history_replace))"

section \<open>The token exchange endpoint\<close>

text \<open>
  Promises: fulfilled with a value, rejected with a reason, or never settled.
\<close>

datatype 'a promise = Fulfilled 'a | RejectedWith js_error | Pending

text \<open>
  The handler of \<^verbatim>\<open>auth-firebase-token\<close> (the function wrapped by the server-side
  \<^verbatim>\<open>requireAuth\<close>, which is not among the sources and sets \<^verbatim>\<open>req.user\<close>). The admin SDK's
  \<^verbatim>\<open>createCustomToken\<close> is a parameter: the promise it returns for a uid. The result is what
  was passed to \<^verbatim>\<open>res.send\<close> and to \<^verbatim>\<open>console.log\<close>; \<^verbatim>\<open>Inl\<close> is the exception thrown by
  \<^verbatim>\<open>user.uid\<close> before any promise exists.
\<close>

record handled =
  sent :: "jsval list"
  logged :: "(string \<times> js_error) list"

definition auth_firebase_token ::
    "(jsval \<Rightarrow> jsval promise) \<Rightarrow> jsval \<Rightarrow> js_error + handled" where
  "auth_firebase_token createCustomToken req_user =
     bind_err (get_prop req_user ''uid'') (\<lambda>uid.
       (case createCustomToken uid of
          Fulfilled firebaseToken \<Rightarrow>
            Inr \<lparr>sent = [JObj [(''status'', JStr ''success''), (''data'', firebaseToken)]],
                 logged = []\<rparr>
        | RejectedWith err \<Rightarrow>
            Inr \<lparr>sent = [JObj [(''status'', JStr ''error''),
                               (''message'', JStr ''Something went wrong acquiring a Firebase token'')]],
                 logged = [(''auth-firebase-token error'', err)]\<rparr>
        | Pending \<Rightarrow> Inr \<lparr>sent = [], logged = []\<rparr>))"

text \<open>A stand-in for the admin SDK's \<^verbatim>\<open>createCustomToken\<close>, used at concrete inputs only.\<close>

definition sample_createCustomToken :: "jsval \<Rightarrow> jsval promise" where
  "sample_createCustomToken uid =
     (case uid of
        JStr s \<Rightarrow> Fulfilled (JStr (''token-for-'' @ s))
      | _ \<Rightarrow> RejectedWith (Rejected (JStr ''auth/invalid-uid'')))"

section \<open>The session composer: \<^verbatim>\<open>useAuthProvider\<close>\<close>

text \<open>
  The calls the composer makes to its collaborators (identity provider, token endpoint,
  Firebase auth, data store) and to its own state setter, in the order they are made.
\<close>

datatype event =
    ApiRequest string
  | FirebaseSignInWithCustomToken jsval
  | FirebaseOnAuthStateChanged
  | FirebaseSignOut
  | CreateUser jsval jsval
  | UpdateUser jsval jsval
  | Auth0SignupAndAuthorize jsval
  | Auth0Login jsval
  | Auth0PopupAuthorize jsval
  | Auth0Logout
  | Auth0UpdateEmail jsval
  | Auth0UpdateProfile jsval
  | Auth0GetCurrentUser
  | SetUser jsval

text \<open>
  How the collaborators answer during one run of an operation: the promise each call
  returns, and for \<^verbatim>\<open>firebase.auth().onAuthStateChanged\<close> the users it passes to the
  listener, in order.
\<close>

record env =
  api_request :: "jsval promise"
  firebase_signInWithCustomToken :: "jsval promise"
  firebase_authStates :: "jsval list"
  db_createUser :: "jsval promise"
  db_updateUser :: "jsval promise"
  auth0_signupAndAuthorize :: "jsval promise"
  auth0_login :: "jsval promise"
  auth0_popupAuthorize :: "jsval promise"
  auth0_logout :: "jsval promise"
  auth0_updateEmail :: "jsval promise"
  auth0_updateProfile :: "jsval promise"
  auth0_getCurrentUser :: "jsval promise"

text \<open>
  The composer's state: the React cell \<^verbatim>\<open>const [user, setUser] = useState(null)\<close> and the
  calls made so far.
\<close>

record composer =
  user_cell :: jsval
  trace :: "event list"

definition initial :: composer where
  "initial = \<lparr>user_cell = JNull, trace = []\<rparr>"

type_synonym 'a async = "composer \<Rightarrow> 'a promise \<times> composer"

text \<open>\<^verbatim>\<open>await m\<close> followed by the rest \<^verbatim>\<open>f\<close>, and \<^verbatim>\<open>m.then(f)\<close>: the rest runs only if \<^verbatim>\<open>m\<close> is fulfilled.\<close>

definition await :: "'a async \<Rightarrow> ('a \<Rightarrow> 'b async) \<Rightarrow> 'b async" where
  "await m f c =
     (case m c of
        (Fulfilled x, c') \<Rightarrow> f x c'
      | (RejectedWith e, c') \<Rightarrow> (RejectedWith e, c')
      | (Pending, c') \<Rightarrow> (Pending, c'))"

definition call :: "event \<Rightarrow> 'a promise \<Rightarrow> 'a async" where
  "call ev r c = (r, c\<lparr>trace := trace c @ [ev]\<rparr>)"

definition resolve :: "'a \<Rightarrow> 'a async" where
  "resolve x c = (Fulfilled x, c)"

text \<open>An expression that may throw, inside an async function or a promise callback.\<close>

definition eval :: "js_error + 'a \<Rightarrow> 'a async" where
  "eval r c = (case r of Inl e \<Rightarrow> (RejectedWith e, c) | Inr x \<Rightarrow> (Fulfilled x, c))"

definition setUser :: "jsval \<Rightarrow> jsval async" where
  "setUser v c = (Fulfilled JUndefined, c\<lparr>user_cell := v, trace := trace c @ [SetUser v]\<rparr>)"

definition setFirebaseToken :: "env \<Rightarrow> jsval async" where
  "setFirebaseToken env =
     await (call (ApiRequest ''auth-firebase-token'') (api_request env)) (\<lambda>token.
       call (FirebaseSignInWithCustomToken token) (firebase_signInWithCustomToken env))"

text \<open>
  \<^verbatim>\<open>waitForFirebase\<close> resolves with the first truthy user that the listener receives, and
  stays pending if there is none.
\<close>

definition waitForFirebase :: "env \<Rightarrow> jsval async" where
  "waitForFirebase env =
     call FirebaseOnAuthStateChanged
       (case find truthy (firebase_authStates env) of
          None \<Rightarrow> Pending
        | Some user \<Rightarrow> Fulfilled user)"

definition handleAuth :: "env \<Rightarrow> jsval \<Rightarrow> jsval async" where
  "handleAuth env user =
     await (setFirebaseToken env) (\<lambda>_.
     await (waitForFirebase env) (\<lambda>_.
     await (eval (get_prop user ''sub'')) (\<lambda>sub.
     await (eval (get_prop user ''email'')) (\<lambda>email.
     await (call (CreateUser sub (JObj [(''email'', email)])) (db_createUser env)) (\<lambda>_.
     await (setUser user) (\<lambda>_.
     resolve user))))))"

definition signup :: "env \<Rightarrow> jsval \<Rightarrow> jsval \<Rightarrow> jsval async" where
  "signup env email password =
     await (call (Auth0SignupAndAuthorize (JObj [(''email'', email), (''password'', password)]))
              (auth0_signupAndAuthorize env))
       (handleAuth env)"

definition signin :: "env \<Rightarrow> jsval \<Rightarrow> jsval \<Rightarrow> jsval async" where
  "signin env email password =
     await (call (Auth0Login (JObj [(''username'', email), (''password'', password)]))
              (auth0_login env))
       (handleAuth env)"

text \<open>
  \<^verbatim>\<open>signinWithProvider(name)\<close>; \<^verbatim>\<open>domain\<close> is the string built from \<^verbatim>\<open>window.location\<close>. When
  no provider has that name, \<^verbatim>\<open>.id\<close> of undefined throws (synchronously, shown here as a
  rejection) before anything is called.
\<close>

definition signinWithProvider :: "env \<Rightarrow> string \<Rightarrow> string \<Rightarrow> jsval async" where
  "signinWithProvider env domain name =
     await (eval (case find (\<lambda>p. p_name p = name) allProviders of
                    None \<Rightarrow> Inl TypeError
                  | Some p \<Rightarrow> Inr (p_id p))) (\<lambda>providerId.
     await (call (Auth0PopupAuthorize
                    (JObj [(''redirectUri'', JStr (domain @ ''/auth0-callback'')),
                           (''connection'', JStr providerId)]))
              (auth0_popupAuthorize env))
       (handleAuth env))"

text \<open>
  \<^verbatim>\<open>signout\<close>: the promise of \<^verbatim>\<open>firebase.auth().signOut()\<close> is dropped, that of
  \<^verbatim>\<open>auth0.extended.logout()\<close> is returned. The state is not touched here; it changes when the
  identity provider reports the change to the \<^verbatim>\<open>onChange\<close> listener.
\<close>

definition signout :: "env \<Rightarrow> jsval async" where
  "signout env =
     await (call FirebaseSignOut (Fulfilled JUndefined)) (\<lambda>_.
       call Auth0Logout (auth0_logout env))"

definition confirmPasswordReset :: "jsval \<Rightarrow> jsval \<Rightarrow> jsval async" where
  "confirmPasswordReset password code =
     eval (Inl (CustomError ''not_needed''
       ''Auth0 handles the password reset flow for you. You can remove this section or page.''))"

text \<open>\<^verbatim>\<open>let fields = {}; if (name) fields.name = name; if (picture) fields.picture = picture;\<close>\<close>

definition profile_fields :: "jsval \<Rightarrow> jsval \<Rightarrow> obj" where
  "profile_fields name picture =
     (let fields0 = [];
          fields1 = (if truthy name then obj_set fields0 ''name'' name else fields0);
          fields2 = (if truthy picture then obj_set fields1 ''picture'' picture else fields1)
      in fields2)"

text \<open>
  \<^verbatim>\<open>updateProfile(data)\<close>. The \<^verbatim>\<open>user\<close> in \<^verbatim>\<open>updateUser(user.sub, data)\<close> is the state the
  closure was created with, the cell's value when the operation starts.
\<close>

definition updateProfile :: "env \<Rightarrow> jsval \<Rightarrow> jsval async" where
  "updateProfile env dat c =
     (let user = user_cell c in
      (await (eval (get_prop dat ''email'')) (\<lambda>email.
       await (eval (get_prop dat ''name'')) (\<lambda>name.
       await (eval (get_prop dat ''picture'')) (\<lambda>picture.
       await (if truthy email
              then call (Auth0UpdateEmail email) (auth0_updateEmail env)
              else resolve JUndefined) (\<lambda>_.
       await (if truthy name \<or> truthy picture
              then call (Auth0UpdateProfile (JObj (profile_fields name picture)))
                     (auth0_updateProfile env)
              else resolve JUndefined) (\<lambda>_.
       await (eval (get_prop user ''sub'')) (\<lambda>sub.
       await (call (UpdateUser sub dat) (db_updateUser env)) (\<lambda>_.
       await (call Auth0GetCurrentUser (auth0_getCurrentUser env)) (\<lambda>currentUser.
       await (setUser currentUser) (\<lambda>_.
       resolve JUndefined)))))))))) c)"

text \<open>The listener given to \<^verbatim>\<open>auth0.extended.onChange\<close> in the mount effect.\<close>

definition onChange :: "env \<Rightarrow> jsval \<Rightarrow> jsval async" where
  "onChange env user =
     (if truthy user
      then await (waitForFirebase env) (\<lambda>_. setUser user)
      else setUser (JBool False))"

text \<open>\<^verbatim>\<open>const finalUser = usePrepareUser(user)\<close>, the \<^verbatim>\<open>user\<close> of the returned auth object.\<close>

definition finalUser :: "(jsval \<Rightarrow> jsval) \<Rightarrow> composer \<Rightarrow> query \<Rightarrow> js_error + jsval" where
  "finalUser getFriendlyPlanId c userDbQuery =
     usePrepareUser getFriendlyPlanId (user_cell c) userDbQuery"

text \<open>The calls an operation added to the trace.\<close>

definition new_events :: "composer \<Rightarrow> 'a promise \<times> composer \<Rightarrow> event list" where
  "new_events c r = drop (length (trace c)) (trace (snd r))"

fun idp_write :: "event \<Rightarrow> bool" where
  "idp_write (Auth0UpdateEmail email) = True"
| "idp_write (Auth0UpdateProfile profile) = True"
| "idp_write (Auth0SignupAndAuthorize credentials) = True"
| "idp_write ev = False"

fun store_write :: "event \<Rightarrow> bool" where
  "store_write (CreateUser uid doc) = True"
| "store_write (UpdateUser uid doc) = True"
| "store_write ev = False"

text \<open>When every step that \<^verbatim>\<open>handleAuth\<close> awaits is fulfilled.\<close>

definition fulfilled :: "'a promise \<Rightarrow> bool" where
  "fulfilled p = (case p of Fulfilled x \<Rightarrow> True | _ \<Rightarrow> False)"

definition exchange_succeeds :: "env \<Rightarrow> bool" where
  "exchange_succeeds env =
     (fulfilled (api_request env) \<and> fulfilled (firebase_signInWithCustomToken env)
      \<and> find truthy (firebase_authStates env) \<noteq> None \<and> fulfilled (db_createUser env))"

subsection \<open>The user-record store\<close>

type_synonym store = "jsval \<Rightarrow> jsval option"

text \<open>
  Modelled from the spec: \<^verbatim>\<open>createUser\<close> is imported from \<^verbatim>\<open>./db\<close>, which is not among the
  sources. The spec has the data store client's \<^verbatim>\<open>createRecord(id, fields)\<close> create the
  user record if it is absent, once per identity: a record that exists is left as it is.
\<close>

definition createUser :: "store \<Rightarrow> jsval \<Rightarrow> jsval \<Rightarrow> store" where
  "createUser db uid doc = (case db uid of None \<Rightarrow> db(uid \<mapsto> doc) | Some r \<Rightarrow> db)"

text \<open>The store after the \<^verbatim>\<open>createUser\<close> calls of a trace, each of them fulfilled.\<close>

fun store_after :: "event list \<Rightarrow> store \<Rightarrow> store" where
  "store_after [] db = db"
| "store_after (CreateUser uid doc # evs) db = store_after evs (createUser db uid doc)"
| "store_after (ev # evs) db = store_after evs db"

text \<open>An environment in which every call is fulfilled, for concrete runs.\<close>

definition sample_identity :: jsval where
  "sample_identity = JObj [(''sub'', JStr ''auth0|1''), (''email'', JStr ''a@b.com'')]"

definition sample_env :: env where
  "sample_env =
     \<lparr>api_request = Fulfilled (JStr ''token''),
      firebase_signInWithCustomToken = Fulfilled JUndefined,
      firebase_authStates = [JNull, JObj [(''uid'', JStr ''auth0|1'')]],
      db_createUser = Fulfilled JUndefined,
      db_updateUser = Fulfilled JUndefined,
      auth0_signupAndAuthorize = Fulfilled sample_identity,
      auth0_login = Fulfilled sample_identity,
      auth0_popupAuthorize = Fulfilled sample_identity,
      auth0_logout = Fulfilled JUndefined,
      auth0_updateEmail = Fulfilled JUndefined,
      auth0_updateProfile = Fulfilled JUndefined,
      auth0_getCurrentUser = Fulfilled sample_identity\<rparr>"

text \<open>The composer once \<^verbatim>\<open>sample_identity\<close> has been published, before any further call.\<close>

definition signed_in :: composer where
  "signed_in = \<lparr>user_cell = sample_identity, trace = []\<rparr>"

section \<open>Properties of the merged user\<close>

subsection \<open>Objects\<close>

lemma map_of_obj_set:
  "map_of (obj_set fs k v) k' = (if k' = k then Some v else map_of fs k')"
  by (induction fs k v rule: obj_set.induct) auto

lemma own_prop_obj_set:
  "own_prop (obj_set fs k v) k' = (if k' = k then v else own_prop fs k')"
  by (simp add: own_prop_def map_of_obj_set)

lemma keys_obj_set:
  "fst ` set (obj_set fs k v) = insert k (fst ` set fs)"
  by (induction fs k v rule: obj_set.induct) auto

lemma keys_fold_obj_set:
  "fst ` set fs \<subseteq> fst ` set (fold (\<lambda>(k, v) t. obj_set t k v) kvs fs)"
proof (induction kvs arbitrary: fs)
  case Nil
  show ?case by simp
next
  case (Cons kv kvs)
  obtain k v where kv: "kv = (k, v)" by (cases kv)
  have "fst ` set fs \<subseteq> fst ` set (obj_set fs k v)"
    by (auto simp: keys_obj_set)
  also have "\<dots> \<subseteq> fst ` set (fold (\<lambda>(k, v) t. obj_set t k v) kvs (obj_set fs k v))"
    by (rule Cons.IH)
  finally show ?case by (simp add: kv)
qed

lemma keys_object_assign:
  "fst ` set fs \<subseteq> fst ` set (object_assign fs src)"
  unfolding object_assign_def by (rule keys_fold_obj_set)

lemma has_identity_fields_obj_set:
  "has_identity_fields fs \<Longrightarrow> has_identity_fields (obj_set fs k v)"
  unfolding has_identity_fields_def keys_obj_set by blast

lemma has_identity_fields_assign:
  "has_identity_fields fs \<Longrightarrow> has_identity_fields (object_assign fs src)"
  unfolding has_identity_fields_def using keys_object_assign[of fs src] by blast

subsection \<open>The provider lookup\<close>

lemma split_on_takeWhile:
  "split_on c s = takeWhile (\<lambda>x. x \<noteq> c) s # tl (split_on c s)"
  by (induction s) (auto split: list.splits)

lemma provider_ids:
  "set (map p_id allProviders) =
     {''auth0'', ''google-oauth2'', ''facebook'', ''twitter'', ''github''}"
  by (simp add: allProviders_def)

lemma findProviderName_prefix:
  "findProviderName (split_on CHR ''|'' s) =
     (case find (\<lambda>p. p_id p = subject_prefix s) allProviders of
        None \<Rightarrow> Inl TypeError
      | Some p \<Rightarrow> Inr (p_name p))"
  by (subst split_on_takeWhile) (simp add: findProviderName_def subject_prefix_def)

lemma findProviderName_known:
  "(\<exists>n. findProviderName (split_on CHR ''|'' s) = Inr n)
     = (subject_prefix s \<in> set (map p_id allProviders))"
proof -
  have "(find (\<lambda>p. p_id p = subject_prefix s) allProviders = None)
          = (subject_prefix s \<notin> set (map p_id allProviders))"
    by (force simp: find_None_iff)
  then show ?thesis
    unfolding findProviderName_prefix
    by (cases "find (\<lambda>p. p_id p = subject_prefix s) allProviders") auto
qed

lemma findProviderName_error:
  "findProviderName segments = Inl e \<Longrightarrow> e = TypeError"
  by (auto simp: findProviderName_def split: list.splits option.splits)

subsection \<open>The switch\<close>

lemma mergeDbData_shape:
  assumes "has_identity_fields fs" and "mergeDbData g fs d = Inr v"
  shows "\<exists>fs'. v = JObj fs' \<and> has_identity_fields fs'"
  using assms
  by (auto simp: mergeDbData_def bind_err_def Let_def has_identity_fields_obj_set
      has_identity_fields_assign split: sum.splits if_splits)

lemma mergeDbUser_shape:
  assumes "has_identity_fields fs" and "mergeDbUser g fs q = Inr v"
  shows "v = JNull \<or> (\<exists>fs'. v = JObj fs' \<and> has_identity_fields fs')"
  using assms mergeDbData_shape[of fs g "data q" v]
  by (auto simp: mergeDbUser_def split: if_splits)

lemma mergeDbData_planIsActive:
  assumes "mergeDbData g fs d = Inr v"
  shows "get_prop v ''planIsActive'' =
           Inr (JBool (get_prop d ''stripeSubscriptionStatus''
                         \<in> {Inr (JStr ''active''), Inr (JStr ''trialing'')}))"
  using assms
  by (auto simp: mergeDbData_def bind_err_def Let_def own_prop_obj_set split: sum.splits)

subsection \<open>The body of \<^verbatim>\<open>usePrepareUser\<close>\<close>

lemma usePrepareUser_falsy:
  "\<not> truthy user \<Longrightarrow> usePrepareUser g user q = Inr user"
  by (simp add: usePrepareUser_def)

lemma usePrepareUser_truthy:
  assumes "truthy user" and "usePrepareUser g user q = Inr v"
  shows "\<exists>s n fs. get_prop user ''sub'' = Inr (JStr s)
           \<and> findProviderName (split_on CHR ''|'' s) = Inr n
           \<and> has_identity_fields fs \<and> mergeDbUser g fs q = Inr v"
proof -
  from assms obtain sub where sub: "get_prop user ''sub'' = Inr sub"
    by (auto simp: usePrepareUser_def bind_err_def split: sum.splits)
  from assms sub obtain s where s: "sub = JStr s"
    by (cases sub) (auto simp: usePrepareUser_def bind_err_def split: sum.splits)
  from assms sub s obtain n where n: "findProviderName (split_on CHR ''|'' s) = Inr n"
    by (auto simp: usePrepareUser_def bind_err_def split: sum.splits)
  from assms sub s n obtain a b c d where
    m: "mergeDbUser g
          (obj_set [(''uid'', JStr s), (''email'', a), (''emailVerified'', b),
                    (''name'', c), (''picture'', d)] ''providers'' (JArr [JStr n])) q = Inr v"
    by (auto simp: usePrepareUser_def bind_err_def Let_def split: sum.splits)
  have "has_identity_fields
          (obj_set [(''uid'', JStr s), (''email'', a), (''emailVerified'', b),
                    (''name'', c), (''picture'', d)] ''providers'' (JArr [JStr n]))"
    by (simp add: has_identity_fields_def)
  with sub s n m show ?thesis by blast
qed

lemma usePrepareUser_known:
  assumes "truthy user" and "usePrepareUser g user q = Inr v"
  shows "known_provider user"
proof -
  from usePrepareUser_truthy[OF assms] obtain s n where
    "get_prop user ''sub'' = Inr (JStr s)" "findProviderName (split_on CHR ''|'' s) = Inr n"
    by blast
  then show ?thesis
    using findProviderName_known[of s] by (auto simp: known_provider_def)
qed

lemma usePrepareUser_unknown:
  assumes "truthy user" and "\<not> known_provider user"
  shows "usePrepareUser g user q = Inl TypeError"
proof (cases "get_prop user ''sub''")
  case (Inl e)
  with assms(1) show ?thesis by (cases user) auto
next
  case (Inr sub)
  show ?thesis
  proof (cases sub)
    case (JStr s)
    with Inr assms(2) have "\<not> (\<exists>n. findProviderName (split_on CHR ''|'' s) = Inr n)"
      using findProviderName_known[of s] by (simp add: known_provider_def)
    then obtain e where "findProviderName (split_on CHR ''|'' s) = Inl e"
      by (cases "findProviderName (split_on CHR ''|'' s)") auto
    moreover from this have "e = TypeError" by (rule findProviderName_error)
    ultimately show ?thesis
      using Inr JStr assms(1)
      by (cases user) (auto simp: usePrepareUser_def bind_err_def split: sum.splits)
  qed (use Inr assms(1) in
        \<open>cases user; auto simp: usePrepareUser_def bind_err_def split: sum.splits\<close>)+
qed

lemma usePrepareUser_known_eq:
  assumes "truthy user" and "known_provider user"
  shows "\<exists>fs. has_identity_fields fs \<and> usePrepareUser g user q = mergeDbUser g fs q"
proof -
  from assms(2) obtain s where s: "get_prop user ''sub'' = Inr (JStr s)"
    and "subject_prefix s \<in> set (map p_id allProviders)"
    by (auto simp: known_provider_def split: sum.splits jsval.splits)
  then obtain n where n: "findProviderName (split_on CHR ''|'' s) = Inr n"
    using findProviderName_known[of s] by blast
  from assms(1) s obtain fs0 where u: "user = JObj fs0"
    by (cases user) auto
  let ?fs = "obj_set [(''uid'', JStr s), (''email'', own_prop fs0 ''email''),
     (''emailVerified'', own_prop fs0 ''email_verified''),
     (''name'', own_prop fs0 ''name''), (''picture'', own_prop fs0 ''picture'')]
     ''providers'' (JArr [JStr n])"
  have "has_identity_fields ?fs" by (simp add: has_identity_fields_def)
  moreover have "usePrepareUser g user q = mergeDbUser g ?fs q"
    using s n u by (simp add: usePrepareUser_def bind_err_def)
  ultimately show ?thesis by blast
qed

subsection \<open>The shape of the merged user\<close>

text \<open>
  Claim C1. Whatever the state of the user cell (null, false or an identity object) and
  whatever the result of the user-record query, a value returned by \<^verbatim>\<open>usePrepareUser\<close> is
  null, false, or a populated object: an object with the fields uid, email, emailVerified,
  name, picture and providers. No other value is returned.
\<close>

theorem usePrepareUser_three_shapes:
  assumes "identity_state user" and "usePrepareUser g user q = Inr v"
  shows "v = JNull \<or> v = JBool False \<or> populated v"
proof (cases "truthy user")
  case False
  with assms show ?thesis
    by (cases user) (auto simp: identity_state_def usePrepareUser_def)
next
  case True
  from usePrepareUser_truthy[OF True assms(2)] obtain fs where
    "has_identity_fields fs" and "mergeDbUser g fs q = Inr v" by blast
  from mergeDbUser_shape[OF this] show ?thesis by (auto simp: populated_def)
qed

theorem usePrepareUser_three_shapes_witness:
  "identity_state sample_identity
   \<and> usePrepareUser sample_getFriendlyPlanId sample_identity
        \<lparr>status = JStr ''success'',
         data = JObj [(''stripePriceId'', JStr ''price_basic''),
                      (''stripeSubscriptionStatus'', JStr ''active'')],
         error = JUndefined\<rparr>
       = Inr (JObj [(''uid'', JStr ''auth0|1''), (''email'', JStr ''a@b.com''),
                    (''emailVerified'', JUndefined), (''name'', JUndefined),
                    (''picture'', JUndefined), (''providers'', JArr [JStr ''password'']),
                    (''stripePriceId'', JStr ''price_basic''),
                    (''stripeSubscriptionStatus'', JStr ''active''),
                    (''planId'', JStr ''basic''), (''planIsActive'', JBool True)])
   \<and> populated (JObj [(''uid'', JStr ''auth0|1''), (''email'', JStr ''a@b.com''),
                    (''emailVerified'', JUndefined), (''name'', JUndefined),
                    (''picture'', JUndefined), (''providers'', JArr [JStr ''password'']),
                    (''stripePriceId'', JStr ''price_basic''),
                    (''stripeSubscriptionStatus'', JStr ''active''),
                    (''planId'', JStr ''basic''), (''planIsActive'', JBool True)])"
  (is "?I \<and> ?run = Inr ?v \<and> populated ?v")
proof -
  have i: ?I by (simp add: identity_state_def sample_identity_def)
  have r: "?run = Inr ?v" by code_simp
  from usePrepareUser_three_shapes[OF i r] have "populated ?v" by simp
  with i r show ?thesis by simp
qed

subsection \<open>The derived field \<^verbatim>\<open>planIsActive\<close>\<close>

text \<open>
  Claim C2. When the query has succeeded and its record has been merged into the object that
  \<^verbatim>\<open>usePrepareUser\<close> returns, the object's \<^verbatim>\<open>planIsActive\<close> is true exactly when the record's
  \<^verbatim>\<open>stripeSubscriptionStatus\<close> is "active" or "trialing". In particular it is false for
  "canceled", whatever \<^verbatim>\<open>stripePriceId\<close> is.
\<close>

theorem planIsActive_iff_active_or_trialing:
  assumes "usePrepareUser g user q = Inr (JObj fs)" and "status q = JStr ''success''"
  shows "get_prop (JObj fs) ''planIsActive'' =
           Inr (JBool (get_prop (data q) ''stripeSubscriptionStatus''
                         \<in> {Inr (JStr ''active''), Inr (JStr ''trialing'')}))
         \<and> (get_prop (data q) ''stripeSubscriptionStatus'' = Inr (JStr ''canceled'')
              \<longrightarrow> get_prop (JObj fs) ''planIsActive'' = Inr (JBool False))"
proof -
  have t: "truthy user"
    using assms(1) by (cases user) (auto simp: usePrepareUser_def split: if_splits)
  from usePrepareUser_truthy[OF t assms(1)] obtain fs0 where
    "mergeDbUser g fs0 q = Inr (JObj fs)" by blast
  with assms(2) have "mergeDbData g fs0 (data q) = Inr (JObj fs)"
    by (auto simp: mergeDbUser_def MERGE_DB_USER_def split: if_splits)
  from mergeDbData_planIsActive[OF this] show ?thesis by auto
qed

theorem planIsActive_iff_active_or_trialing_witness:
  "usePrepareUser sample_getFriendlyPlanId sample_identity
        \<lparr>status = JStr ''success'',
         data = JObj [(''stripePriceId'', JStr ''price_basic''),
                      (''stripeSubscriptionStatus'', JStr ''canceled'')],
         error = JUndefined\<rparr>
       = Inr (JObj [(''uid'', JStr ''auth0|1''), (''email'', JStr ''a@b.com''),
                    (''emailVerified'', JUndefined), (''name'', JUndefined),
                    (''picture'', JUndefined), (''providers'', JArr [JStr ''password'']),
                    (''stripePriceId'', JStr ''price_basic''),
                    (''stripeSubscriptionStatus'', JStr ''canceled''),
                    (''planId'', JStr ''basic''), (''planIsActive'', JBool False)])
   \<and> get_prop (JObj [(''uid'', JStr ''auth0|1''), (''email'', JStr ''a@b.com''),
                    (''emailVerified'', JUndefined), (''name'', JUndefined),
                    (''picture'', JUndefined), (''providers'', JArr [JStr ''password'']),
                    (''stripePriceId'', JStr ''price_basic''),
                    (''stripeSubscriptionStatus'', JStr ''canceled''),
                    (''planId'', JStr ''basic''), (''planIsActive'', JBool False)])
        ''planIsActive'' = Inr (JBool False)"
  (is "?run = Inr (JObj ?fs) \<and> _")
proof -
  have r: "?run = Inr (JObj ?fs)" by code_simp
  have s: "status \<lparr>status = JStr ''success'',
         data = JObj [(''stripePriceId'', JStr ''price_basic''),
                      (''stripeSubscriptionStatus'', JStr ''canceled'')],
         error = JUndefined\<rparr> = JStr ''success''" by simp
  from planIsActive_iff_active_or_trialing[OF r s]
  have "get_prop (JObj ?fs) ''planIsActive'' = Inr (JBool False)"
    by (simp add: own_prop_def)
  with r show ?thesis by simp
qed

subsection \<open>A record that does not exist yet\<close>

text \<open>
  Claim C3, as amended. For an authenticated identity (a truthy state of the user cell) and a
  query with status "success" and data null, \<^verbatim>\<open>usePrepareUser\<close> returns null when the
  identity's \<^verbatim>\<open>sub\<close> is a string whose segment before the first "|" is one of the ids of
  \<^verbatim>\<open>allProviders\<close>; for every other authenticated identity the provider lookup throws a
  TypeError before the query is looked at. In neither case is an object returned.
\<close>

theorem null_data_keeps_null:
  assumes "truthy user" and "status q = JStr ''success''" and "data q = JNull"
  shows "usePrepareUser g user q = (if known_provider user then Inr JNull else Inl TypeError)"
proof (cases "known_provider user")
  case True
  from usePrepareUser_known_eq[OF assms(1) True] obtain fs where
    "usePrepareUser g user q = mergeDbUser g fs q" by blast
  with assms(2,3) True show ?thesis by (simp add: mergeDbUser_def MERGE_DB_USER_def)
next
  case False
  with usePrepareUser_unknown[OF assms(1) False] show ?thesis by simp
qed

theorem null_data_keeps_null_witness:
  "truthy sample_identity \<and> known_provider sample_identity
   \<and> usePrepareUser sample_getFriendlyPlanId sample_identity
       \<lparr>status = JStr ''success'', data = JNull, error = JUndefined\<rparr> = Inr JNull"
proof -
  have t: "truthy sample_identity" by (simp add: sample_identity_def)
  have k: "known_provider sample_identity"
    by (simp add: known_provider_def sample_identity_def own_prop_def subject_prefix_def
        allProviders_def)
  from null_data_keeps_null[OF t, of "\<lparr>status = JStr ''success'', data = JNull, error = JUndefined\<rparr>"
      sample_getFriendlyPlanId] k t
  show ?thesis by simp
qed

text \<open>
  The claim as it was stated fails for an identity that comes from a connection outside
  \<^verbatim>\<open>allProviders\<close>: with \<^verbatim>\<open>sub = "linkedin|1"\<close>, status "success" and data null, no merged
  user is computed at all.
\<close>

theorem null_data_unknown_provider_counterexample:
  "truthy (JObj [(''sub'', JStr ''linkedin|1''), (''email'', JStr ''a@b.com'')])
   \<and> usePrepareUser sample_getFriendlyPlanId
        (JObj [(''sub'', JStr ''linkedin|1''), (''email'', JStr ''a@b.com'')])
        \<lparr>status = JStr ''success'', data = JNull, error = JUndefined\<rparr> = Inl TypeError
   \<and> usePrepareUser sample_getFriendlyPlanId
        (JObj [(''sub'', JStr ''linkedin|1''), (''email'', JStr ''a@b.com'')])
        \<lparr>status = JStr ''success'', data = JNull, error = JUndefined\<rparr> \<noteq> Inr JNull"
  by code_simp

subsection \<open>Identities from an unknown provider\<close>

text \<open>
  Claim C10. For an authenticated identity whose \<^verbatim>\<open>sub\<close> is a string with a segment before
  the first "|" that is none of auth0, google-oauth2, facebook, twitter, github, the provider
  lookup finds no entry and \<^verbatim>\<open>usePrepareUser\<close> throws a TypeError, whatever the query result.
  Conversely, when \<^verbatim>\<open>usePrepareUser\<close> returns a value for an authenticated identity, \<^verbatim>\<open>sub\<close>
  is a string whose segment before the first "|" is one of the five.
\<close>

theorem unknown_provider_throws:
  "(\<forall>s. truthy user \<and> get_prop user ''sub'' = Inr (JStr s)
        \<and> subject_prefix s \<notin> {''auth0'', ''google-oauth2'', ''facebook'', ''twitter'', ''github''}
      \<longrightarrow> usePrepareUser g user q = Inl TypeError)
   \<and> (\<forall>v. truthy user \<and> usePrepareUser g user q = Inr v
      \<longrightarrow> (\<exists>s. get_prop user ''sub'' = Inr (JStr s)
             \<and> subject_prefix s \<in> {''auth0'', ''google-oauth2'', ''facebook'', ''twitter'', ''github''}))"
proof (intro conjI allI impI)
  fix s
  assume a: "truthy user \<and> get_prop user ''sub'' = Inr (JStr s)
        \<and> subject_prefix s \<notin> {''auth0'', ''google-oauth2'', ''facebook'', ''twitter'', ''github''}"
  then have "\<not> known_provider user"
    unfolding known_provider_def provider_ids by simp
  with a show "usePrepareUser g user q = Inl TypeError"
    by (simp add: usePrepareUser_unknown)
next
  fix v
  assume a: "truthy user \<and> usePrepareUser g user q = Inr v"
  then have "known_provider user"
    using usePrepareUser_known[of user g q v] by simp
  then show "\<exists>s. get_prop user ''sub'' = Inr (JStr s)
             \<and> subject_prefix s \<in> {''auth0'', ''google-oauth2'', ''facebook'', ''twitter'', ''github''}"
    unfolding known_provider_def provider_ids
    by (auto split: sum.splits jsval.splits)
qed

theorem unknown_provider_throws_witness:
  "truthy (JObj [(''sub'', JStr ''apple|7''), (''email'', JStr ''a@b.com'')])
   \<and> get_prop (JObj [(''sub'', JStr ''apple|7''), (''email'', JStr ''a@b.com'')]) ''sub''
       = Inr (JStr ''apple|7'')
   \<and> subject_prefix ''apple|7''
       \<notin> {''auth0'', ''google-oauth2'', ''facebook'', ''twitter'', ''github''}
   \<and> usePrepareUser sample_getFriendlyPlanId
       (JObj [(''sub'', JStr ''apple|7''), (''email'', JStr ''a@b.com'')])
       \<lparr>status = JStr ''success'',
        data = JObj [(''stripeSubscriptionStatus'', JStr ''active'')],
        error = JUndefined\<rparr> = Inl TypeError"
proof -
  let ?u = "JObj [(''sub'', JStr ''apple|7''), (''email'', JStr ''a@b.com'')]"
  let ?q = "\<lparr>status = JStr ''success'',
        data = JObj [(''stripeSubscriptionStatus'', JStr ''active'')],
        error = JUndefined\<rparr>"
  have h: "truthy ?u \<and> get_prop ?u ''sub'' = Inr (JStr ''apple|7'')
        \<and> subject_prefix ''apple|7''
            \<notin> {''auth0'', ''google-oauth2'', ''facebook'', ''twitter'', ''github''}"
    by (simp add: own_prop_def subject_prefix_def)
  from unknown_provider_throws[of ?u sample_getFriendlyPlanId ?q]
  have "usePrepareUser sample_getFriendlyPlanId ?u ?q = Inl TypeError"
    using h by blast
  with h show ?thesis by simp
qed

section \<open>Properties of the route guard\<close>

text \<open>
  Claim C5. The route guard calls \<^verbatim>\<open>history.replace\<close> (with the sign-in route) if and only
  if \<^verbatim>\<open>auth.user\<close> is exactly false. While it is null the guard renders the page loader and
  does not redirect; once it is a populated object the guard renders the wrapped component
  with its props.
\<close>

theorem requireAuth_redirects_iff_false:
  "(snd (requireAuth Component props auth_user) \<noteq> []) = (auth_user = JBool False)
   \<and> snd (requireAuth Component props auth_user)
       = (if auth_user = JBool False then [''/auth/signin''] else [])
   \<and> requireAuth Component props JNull = (PageLoader, [])
   \<and> (populated auth_user
        \<longrightarrow> requireAuth Component props auth_user = (Render Component props, []))"
  by (cases auth_user) (auto simp: requireAuth_def populated_def)

theorem requireAuth_redirects_iff_false_witness:
  "populated (JObj [(''uid'', JStr ''auth0|1''), (''email'', JStr ''a@b.com''),
                    (''emailVerified'', JBool True), (''name'', JStr ''A''),
                    (''picture'', JUndefined), (''providers'', JArr [JStr ''password''])])
   \<and> requireAuth ''Dashboard'' ''props''
        (JObj [(''uid'', JStr ''auth0|1''), (''email'', JStr ''a@b.com''),
               (''emailVerified'', JBool True), (''name'', JStr ''A''),
               (''picture'', JUndefined), (''providers'', JArr [JStr ''password''])])
       = (Render ''Dashboard'' ''props'', [])"
proof -
  let ?v = "JObj [(''uid'', JStr ''auth0|1''), (''email'', JStr ''a@b.com''),
                    (''emailVerified'', JBool True), (''name'', JStr ''A''),
                    (''picture'', JUndefined), (''providers'', JArr [JStr ''password''])]"
  have p: "populated ?v" by (simp add: populated_def has_identity_fields_def)
  from requireAuth_redirects_iff_false[of "''Dashboard''" "''props''" ?v] p
  have "requireAuth ''Dashboard'' ''props'' ?v = (Render ''Dashboard'' ''props'', [])"
    by blast
  with p show ?thesis by simp
qed

section \<open>Properties of the token exchange endpoint\<close>

text \<open>
  Claim C7. For an authenticated request, when the token-minting call is rejected the
  endpoint sends one response, the object with status "error" and a constant message; the
  response is the same whatever the upstream error is (the error goes to the server's log
  only). When the call is fulfilled the endpoint sends status "success" with the credential
  as data.
\<close>

theorem token_endpoint_generic_error:
  assumes "get_prop req_user ''uid'' = Inr uid"
  shows "(createCustomToken uid = RejectedWith err \<longrightarrow>
            auth_firebase_token createCustomToken req_user =
              Inr \<lparr>sent = [JObj [(''status'', JStr ''error''),
                                 (''message'', JStr ''Something went wrong acquiring a Firebase token'')]],
                   logged = [(''auth-firebase-token error'', err)]\<rparr>)
       \<and> (createCustomToken uid = RejectedWith err \<and> createCustomToken' uid = RejectedWith err' \<longrightarrow>
            map_sum id sent (auth_firebase_token createCustomToken req_user)
              = map_sum id sent (auth_firebase_token createCustomToken' req_user))
       \<and> (createCustomToken uid = Fulfilled firebaseToken \<longrightarrow>
            auth_firebase_token createCustomToken req_user =
              Inr \<lparr>sent = [JObj [(''status'', JStr ''success''), (''data'', firebaseToken)]],
                   logged = []\<rparr>)"
  using assms by (simp add: auth_firebase_token_def bind_err_def)

theorem token_endpoint_generic_error_witness:
  "get_prop (JObj [(''uid'', JStr ''auth0|1'')]) ''uid'' = Inr (JStr ''auth0|1'')
   \<and> sample_createCustomToken (JStr ''auth0|1'') = Fulfilled (JStr ''token-for-auth0|1'')
   \<and> auth_firebase_token sample_createCustomToken (JObj [(''uid'', JStr ''auth0|1'')])
       = Inr \<lparr>sent = [JObj [(''status'', JStr ''success''),
                             (''data'', JStr ''token-for-auth0|1'')]],
              logged = []\<rparr>
   \<and> get_prop (JObj [(''uid'', JNum 5)]) ''uid'' = Inr (JNum 5)
   \<and> sample_createCustomToken (JNum 5) = RejectedWith (Rejected (JStr ''auth/invalid-uid''))
   \<and> auth_firebase_token sample_createCustomToken (JObj [(''uid'', JNum 5)])
       = Inr \<lparr>sent = [JObj [(''status'', JStr ''error''),
                             (''message'', JStr ''Something went wrong acquiring a Firebase token'')]],
              logged = [(''auth-firebase-token error'', Rejected (JStr ''auth/invalid-uid''))]\<rparr>"
proof -
  have u1: "get_prop (JObj [(''uid'', JStr ''auth0|1'')]) ''uid'' = Inr (JStr ''auth0|1'')"
    by (simp add: own_prop_def)
  have t1: "sample_createCustomToken (JStr ''auth0|1'') = Fulfilled (JStr ''token-for-auth0|1'')"
    by (simp add: sample_createCustomToken_def)
  have u2: "get_prop (JObj [(''uid'', JNum 5)]) ''uid'' = Inr (JNum 5)"
    by (simp add: own_prop_def)
  have t2: "sample_createCustomToken (JNum 5) = RejectedWith (Rejected (JStr ''auth/invalid-uid''))"
    by (simp add: sample_createCustomToken_def)
  from token_endpoint_generic_error[OF u1, of sample_createCustomToken] t1
    token_endpoint_generic_error[OF u2, of sample_createCustomToken] t2 u1 u2
  show ?thesis by simp
qed

section \<open>Properties of the session composer\<close>

subsection \<open>Running the awaited steps\<close>

lemma await_Fulfilled:
  "m c = (Fulfilled x, c') \<Longrightarrow> await m f c = f x c'"
  by (simp add: await_def)

lemma fulfilledE:
  "fulfilled p \<Longrightarrow> \<exists>x. p = Fulfilled x"
  by (cases p) (auto simp: fulfilled_def)

lemma handleAuth_run:
  assumes "api_request env = Fulfilled token"
      and "firebase_signInWithCustomToken env = Fulfilled r1"
      and "find truthy (firebase_authStates env) = Some fu"
      and "db_createUser env = Fulfilled r2"
  shows "handleAuth env (JObj u) c =
           (Fulfilled (JObj u),
            c\<lparr>user_cell := JObj u,
              trace := trace c @
                [ApiRequest ''auth-firebase-token'', FirebaseSignInWithCustomToken token,
                 FirebaseOnAuthStateChanged,
                 CreateUser (own_prop u ''sub'') (JObj [(''email'', own_prop u ''email'')]),
                 SetUser (JObj u)]\<rparr>)"
  using assms
  by (simp add: handleAuth_def setFirebaseToken_def waitForFirebase_def await_def call_def
      eval_def setUser_def resolve_def)

lemma createUser_twice:
  "createUser (createUser db uid doc) uid doc' = createUser db uid doc"
  by (auto simp: createUser_def split: option.splits)

text \<open>
  The three entry points hand the identity the provider resolved with to \<^verbatim>\<open>handleAuth\<close>,
  and do nothing else after the provider's call.
\<close>

lemma signin_then_handleAuth:
  "auth0_login env = Fulfilled user \<Longrightarrow>
     signin env email password c =
       handleAuth env user
         (c\<lparr>trace := trace c @
               [Auth0Login (JObj [(''username'', email), (''password'', password)])]\<rparr>)"
  by (simp add: signin_def await_def call_def)

lemma signup_then_handleAuth:
  "auth0_signupAndAuthorize env = Fulfilled user \<Longrightarrow>
     signup env email password c =
       handleAuth env user
         (c\<lparr>trace := trace c @
               [Auth0SignupAndAuthorize (JObj [(''email'', email), (''password'', password)])]\<rparr>)"
  by (simp add: signup_def await_def call_def)

lemma signinWithProvider_then_handleAuth:
  "find (\<lambda>p. p_name p = name) allProviders = Some p \<Longrightarrow>
   auth0_popupAuthorize env = Fulfilled user \<Longrightarrow>
     signinWithProvider env domain name c =
       handleAuth env user
         (c\<lparr>trace := trace c @
               [Auth0PopupAuthorize
                  (JObj [(''redirectUri'', JStr (domain @ ''/auth0-callback'')),
                         (''connection'', JStr (p_id p))])]\<rparr>)"
  by (simp add: signinWithProvider_def await_def call_def eval_def)

text \<open>
  Whatever the collaborators answer, \<^verbatim>\<open>handleAuth\<close> publishes an identity only after it has
  called \<^verbatim>\<open>createUser\<close> for it.
\<close>

lemma handleAuth_publishes_after_create:
  assumes "SetUser v \<in> set (new_events c (handleAuth env user c))"
  shows "\<exists>pre post uid doc.
           new_events c (handleAuth env user c) = pre @ CreateUser uid doc # post
           \<and> SetUser v \<in> set post \<and> SetUser v \<notin> set pre"
proof -
  have "new_events c (handleAuth env user c) \<in>
          {[ApiRequest ''auth-firebase-token'']} \<union>
          {[ApiRequest ''auth-firebase-token'', FirebaseSignInWithCustomToken t] | t. True} \<union>
          {[ApiRequest ''auth-firebase-token'', FirebaseSignInWithCustomToken t,
            FirebaseOnAuthStateChanged] | t. True} \<union>
          {[ApiRequest ''auth-firebase-token'', FirebaseSignInWithCustomToken t,
            FirebaseOnAuthStateChanged, CreateUser uid doc] | t uid doc. True} \<union>
          {[ApiRequest ''auth-firebase-token'', FirebaseSignInWithCustomToken t,
            FirebaseOnAuthStateChanged, CreateUser uid doc, SetUser user] | t uid doc. True}"
    by (auto simp: handleAuth_def setFirebaseToken_def waitForFirebase_def await_def call_def
        eval_def setUser_def resolve_def new_events_def
        split: promise.splits option.splits sum.splits)
  with assms obtain t uid doc where
    e: "new_events c (handleAuth env user c) =
         [ApiRequest ''auth-firebase-token'', FirebaseSignInWithCustomToken t,
          FirebaseOnAuthStateChanged] @ CreateUser uid doc # [SetUser user]"
    and v: "v = user"
    by auto
  show ?thesis
    by (rule exI[of _ "[ApiRequest ''auth-firebase-token'', FirebaseSignInWithCustomToken t,
          FirebaseOnAuthStateChanged]"], rule exI[of _ "[SetUser user]"],
        rule exI[of _ uid], rule exI[of _ doc]) (simp add: e v)
qed

subsection \<open>Creating the user record\<close>

text \<open>
  Claim C4. When the steps that \<^verbatim>\<open>handleAuth\<close> awaits are fulfilled (token exchange, Firebase
  sign-in with the token, Firebase reporting a user, the \<^verbatim>\<open>createUser\<close> call), a sign-up or
  sign-in of an identity is fulfilled with that identity and makes exactly these calls in
  this order: the token request, the Firebase sign-in, the wait for Firebase, \<^verbatim>\<open>createUser\<close>
  with the identity's \<^verbatim>\<open>sub\<close> and \<^verbatim>\<open>{email}\<close>, and only then \<^verbatim>\<open>setUser\<close> with the identity.
  With the store's \<^verbatim>\<open>createUser\<close> as the spec describes it, the record is created if it was
  absent and left as it was otherwise, and a later sign-in of the same identity leaves the
  store unchanged: the record is created once.
\<close>

theorem handleAuth_creates_record_once:
  assumes "exchange_succeeds env" and "exchange_succeeds env'"
  shows "fst (handleAuth env (JObj u) c) = Fulfilled (JObj u)
       \<and> user_cell (snd (handleAuth env (JObj u) c)) = JObj u
       \<and> (\<exists>token. new_events c (handleAuth env (JObj u) c) =
            [ApiRequest ''auth-firebase-token'', FirebaseSignInWithCustomToken token,
             FirebaseOnAuthStateChanged,
             CreateUser (own_prop u ''sub'') (JObj [(''email'', own_prop u ''email'')]),
             SetUser (JObj u)])
       \<and> store_after (new_events c (handleAuth env (JObj u) c)) db =
            (case db (own_prop u ''sub'') of
               None \<Rightarrow> db(own_prop u ''sub'' \<mapsto> JObj [(''email'', own_prop u ''email'')])
             | Some r \<Rightarrow> db)
       \<and> store_after
            (new_events (snd (handleAuth env (JObj u) c))
               (handleAuth env' (JObj u) (snd (handleAuth env (JObj u) c))))
            (store_after (new_events c (handleAuth env (JObj u) c)) db)
          = store_after (new_events c (handleAuth env (JObj u) c)) db"
proof -
  from assms(1) obtain token r1 fu r2 where
    e: "api_request env = Fulfilled token" "firebase_signInWithCustomToken env = Fulfilled r1"
       "find truthy (firebase_authStates env) = Some fu" "db_createUser env = Fulfilled r2"
    unfolding exchange_succeeds_def by (auto dest!: fulfilledE)
  from assms(2) obtain token' r1' fu' r2' where
    e': "api_request env' = Fulfilled token'" "firebase_signInWithCustomToken env' = Fulfilled r1'"
       "find truthy (firebase_authStates env') = Some fu'" "db_createUser env' = Fulfilled r2'"
    unfolding exchange_succeeds_def by (auto dest!: fulfilledE)
  note run = handleAuth_run[OF e] handleAuth_run[OF e']
  have n1: "new_events c (handleAuth env (JObj u) c) =
            [ApiRequest ''auth-firebase-token'', FirebaseSignInWithCustomToken token,
             FirebaseOnAuthStateChanged,
             CreateUser (own_prop u ''sub'') (JObj [(''email'', own_prop u ''email'')]),
             SetUser (JObj u)]"
    by (simp add: run new_events_def)
  have n2: "new_events (snd (handleAuth env (JObj u) c))
               (handleAuth env' (JObj u) (snd (handleAuth env (JObj u) c))) =
            [ApiRequest ''auth-firebase-token'', FirebaseSignInWithCustomToken token',
             FirebaseOnAuthStateChanged,
             CreateUser (own_prop u ''sub'') (JObj [(''email'', own_prop u ''email'')]),
             SetUser (JObj u)]"
    by (simp add: run new_events_def)
  have s1: "store_after (new_events c (handleAuth env (JObj u) c)) db =
            createUser db (own_prop u ''sub'') (JObj [(''email'', own_prop u ''email'')])"
    by (simp add: n1)
  have s2: "store_after
            (new_events (snd (handleAuth env (JObj u) c))
               (handleAuth env' (JObj u) (snd (handleAuth env (JObj u) c))))
            (store_after (new_events c (handleAuth env (JObj u) c)) db)
          = store_after (new_events c (handleAuth env (JObj u) c)) db"
    unfolding n2 s1 by (simp add: createUser_twice)
  have a: "fst (handleAuth env (JObj u) c) = Fulfilled (JObj u)" by (simp add: run)
  have b: "user_cell (snd (handleAuth env (JObj u) c)) = JObj u" by (simp add: run)
  have d: "store_after (new_events c (handleAuth env (JObj u) c)) db =
            (case db (own_prop u ''sub'') of
               None \<Rightarrow> db(own_prop u ''sub'' \<mapsto> JObj [(''email'', own_prop u ''email'')])
             | Some r \<Rightarrow> db)"
    unfolding s1 by (simp add: createUser_def)
  from a b n1 d s2 show ?thesis by blast
qed

theorem handleAuth_creates_record_once_witness:
  "exchange_succeeds sample_env
   \<and> fst (handleAuth sample_env sample_identity initial) = Fulfilled sample_identity
   \<and> store_after (new_events initial (handleAuth sample_env sample_identity initial)) Map.empty
       (JStr ''auth0|1'') = Some (JObj [(''email'', JStr ''a@b.com'')])"
proof -
  have h: "exchange_succeeds sample_env"
    by (simp add: exchange_succeeds_def sample_env_def fulfilled_def)
  note t = handleAuth_creates_record_once[OF h h,
      of "[(''sub'', JStr ''auth0|1''), (''email'', JStr ''a@b.com'')]" initial Map.empty]
  from t have "fst (handleAuth sample_env sample_identity initial) = Fulfilled sample_identity"
    by (simp add: sample_identity_def)
  moreover from t have
    "store_after (new_events initial (handleAuth sample_env sample_identity initial)) Map.empty
       (JStr ''auth0|1'') = Some (JObj [(''email'', JStr ''a@b.com'')])"
    by (simp add: sample_identity_def own_prop_def)
  ultimately show ?thesis using h by simp
qed

subsection \<open>Updating the profile\<close>

text \<open>
  Claim C6, as amended. A call to \<^verbatim>\<open>updateProfile\<close> whose data has only an email field with
  a truthy value (a non-empty string) first calls \<^verbatim>\<open>updateEmail\<close> on the identity provider,
  makes no other write to the identity provider, and makes at most one write to the store,
  after it. When an identity is held and the awaited calls are fulfilled, it makes exactly
  these calls in this order: \<^verbatim>\<open>updateEmail\<close>, \<^verbatim>\<open>updateUser\<close> on the store with the held
  identity's \<^verbatim>\<open>sub\<close> and the whole data, \<^verbatim>\<open>getCurrentUser\<close>, and \<^verbatim>\<open>setUser\<close> with the
  identity read: one write to the identity provider, then one write to the store, then the
  re-read.
\<close>

theorem updateProfile_email_only:
  assumes "truthy email"
  shows "(\<exists>rest. new_events c (updateProfile env (JObj [(''email'', email)]) c)
                   = Auth0UpdateEmail email # rest
                 \<and> filter idp_write rest = []
                 \<and> length (filter store_write rest) \<le> 1)
       \<and> (user_cell c = JObj u \<and> auth0_updateEmail env = Fulfilled r1
            \<and> db_updateUser env = Fulfilled r2
            \<and> auth0_getCurrentUser env = Fulfilled currentUser \<longrightarrow>
            updateProfile env (JObj [(''email'', email)]) c =
              (Fulfilled JUndefined,
               c\<lparr>user_cell := currentUser,
                 trace := trace c @
                   [Auth0UpdateEmail email,
                    UpdateUser (own_prop u ''sub'') (JObj [(''email'', email)]),
                    Auth0GetCurrentUser,
                    SetUser currentUser]\<rparr>)
            \<and> length (filter idp_write
                 (new_events c (updateProfile env (JObj [(''email'', email)]) c))) = 1
            \<and> length (filter store_write
                 (new_events c (updateProfile env (JObj [(''email'', email)]) c))) = 1)"
proof -
  have first: "\<exists>rest. new_events c (updateProfile env (JObj [(''email'', email)]) c)
                   = Auth0UpdateEmail email # rest
                 \<and> filter idp_write rest = []
                 \<and> length (filter store_write rest) \<le> 1"
    using assms
    by (auto simp: updateProfile_def await_def call_def eval_def setUser_def resolve_def
        own_prop_def new_events_def split: promise.splits sum.splits)
  {
    assume a: "user_cell c = JObj u \<and> auth0_updateEmail env = Fulfilled r1
            \<and> db_updateUser env = Fulfilled r2
            \<and> auth0_getCurrentUser env = Fulfilled currentUser"
    have run: "updateProfile env (JObj [(''email'', email)]) c =
           (Fulfilled JUndefined,
            c\<lparr>user_cell := currentUser,
              trace := trace c @
                [Auth0UpdateEmail email,
                 UpdateUser (own_prop u ''sub'') (JObj [(''email'', email)]),
                 Auth0GetCurrentUser,
                 SetUser currentUser]\<rparr>)"
      using assms a
      by (simp add: updateProfile_def await_def call_def eval_def setUser_def resolve_def
          own_prop_def)
    then have "updateProfile env (JObj [(''email'', email)]) c =
              (Fulfilled JUndefined,
               c\<lparr>user_cell := currentUser,
                 trace := trace c @
                   [Auth0UpdateEmail email,
                    UpdateUser (own_prop u ''sub'') (JObj [(''email'', email)]),
                    Auth0GetCurrentUser,
                    SetUser currentUser]\<rparr>)
            \<and> length (filter idp_write
                 (new_events c (updateProfile env (JObj [(''email'', email)]) c))) = 1
            \<and> length (filter store_write
                 (new_events c (updateProfile env (JObj [(''email'', email)]) c))) = 1"
      by (simp add: new_events_def)
  }
  note second = this
  from first second show ?thesis by blast
qed

theorem updateProfile_email_only_witness:
  "truthy (JStr ''a@b.com'') \<and> user_cell signed_in = sample_identity
   \<and> auth0_updateEmail sample_env = Fulfilled JUndefined
   \<and> db_updateUser sample_env = Fulfilled JUndefined
   \<and> auth0_getCurrentUser sample_env = Fulfilled sample_identity
   \<and> new_events signed_in
        (updateProfile sample_env (JObj [(''email'', JStr ''a@b.com'')]) signed_in)
       = [Auth0UpdateEmail (JStr ''a@b.com''),
          UpdateUser (JStr ''auth0|1'') (JObj [(''email'', JStr ''a@b.com'')]),
          Auth0GetCurrentUser,
          SetUser sample_identity]"
proof -
  have h1: "truthy (JStr ''a@b.com'')" by simp
  have h2: "user_cell signed_in = JObj [(''sub'', JStr ''auth0|1''), (''email'', JStr ''a@b.com'')]"
    by (simp add: signed_in_def sample_identity_def)
  have h3: "auth0_updateEmail sample_env = Fulfilled JUndefined" by (simp add: sample_env_def)
  have h4: "db_updateUser sample_env = Fulfilled JUndefined" by (simp add: sample_env_def)
  have h5: "auth0_getCurrentUser sample_env = Fulfilled sample_identity"
    by (simp add: sample_env_def)
  from updateProfile_email_only[OF h1, of signed_in sample_env
      "[(''sub'', JStr ''auth0|1''), (''email'', JStr ''a@b.com'')]" JUndefined JUndefined
      sample_identity] h2 h3 h4 h5
  have "new_events signed_in
        (updateProfile sample_env (JObj [(''email'', JStr ''a@b.com'')]) signed_in)
       = [Auth0UpdateEmail (JStr ''a@b.com''),
          UpdateUser (JStr ''auth0|1'') (JObj [(''email'', JStr ''a@b.com'')]),
          Auth0GetCurrentUser,
          SetUser sample_identity]"
    by (simp add: new_events_def own_prop_def)
  with h1 h2 h3 h4 h5 show ?thesis by (simp add: sample_identity_def)
qed

text \<open>
  The claim as it was stated fails when the only field is an email that is falsy: with
  \<^verbatim>\<open>{email: ""}\<close> the guard \<^verbatim>\<open>if (email)\<close> skips \<^verbatim>\<open>updateEmail\<close>, so the identity provider is
  not written to at all, while the store is.
\<close>

theorem updateProfile_empty_email_counterexample:
  "new_events signed_in (updateProfile sample_env (JObj [(''email'', JStr [])]) signed_in)
     = [UpdateUser (JStr ''auth0|1'') (JObj [(''email'', JStr [])]),
        Auth0GetCurrentUser,
        SetUser sample_identity]
   \<and> length (filter idp_write
        (new_events signed_in
           (updateProfile sample_env (JObj [(''email'', JStr [])]) signed_in))) = 0
   \<and> length (filter store_write
        (new_events signed_in
           (updateProfile sample_env (JObj [(''email'', JStr [])]) signed_in))) = 1"
  by (simp add: updateProfile_def await_def call_def eval_def setUser_def resolve_def
      own_prop_def new_events_def signed_in_def sample_env_def sample_identity_def)

subsection \<open>Confirming a password reset\<close>

text \<open>
  Claim C8. Whatever its arguments and whatever the composer's state, \<^verbatim>\<open>confirmPasswordReset\<close>
  returns a promise rejected with the same error, code "not_needed" and a fixed message. It
  is never fulfilled, makes no call to the identity provider or the store, and leaves the
  state as it was.
\<close>

theorem confirmPasswordReset_always_rejected:
  "confirmPasswordReset password code c =
     (RejectedWith (CustomError ''not_needed''
        ''Auth0 handles the password reset flow for you. You can remove this section or page.''),
      c)
   \<and> fst (confirmPasswordReset password code c) \<noteq> Fulfilled v
   \<and> new_events c (confirmPasswordReset password code c) = []
   \<and> confirmPasswordReset password code c = confirmPasswordReset password' code' c"
  by (simp add: confirmPasswordReset_def eval_def new_events_def)

theorem confirmPasswordReset_always_rejected_witness:
  "confirmPasswordReset (JStr ''hunter2'') (JStr ''oob-code'') signed_in =
     (RejectedWith (CustomError ''not_needed''
        ''Auth0 handles the password reset flow for you. You can remove this section or page.''),
      signed_in)"
  using confirmPasswordReset_always_rejected[of "JStr ''hunter2''" "JStr ''oob-code''" signed_in]
  by simp

subsection \<open>Signing out\<close>

text \<open>
  Claim C9. When the identity provider notifies the \<^verbatim>\<open>onChange\<close> listener of a change that
  carries no user, the listener publishes false: the user cell becomes false, and the merged
  user computed from it is false, not null, whatever the query result. \<^verbatim>\<open>signout\<close> itself
  only calls the two providers and leaves the cell as it is.
\<close>

theorem signout_publishes_false:
  assumes "\<not> truthy notified"
  shows "onChange env notified c =
           (Fulfilled JUndefined,
            c\<lparr>user_cell := JBool False, trace := trace c @ [SetUser (JBool False)]\<rparr>)
       \<and> user_cell (snd (onChange env notified c)) = JBool False
       \<and> finalUser g (snd (onChange env notified c)) q = Inr (JBool False)
       \<and> finalUser g (snd (onChange env notified c)) q \<noteq> Inr JNull
       \<and> user_cell (snd (signout env c)) = user_cell c
       \<and> new_events c (signout env c) = [FirebaseSignOut, Auth0Logout]"
  using assms
  by (simp add: onChange_def setUser_def finalUser_def usePrepareUser_def signout_def
      await_def call_def new_events_def)

theorem signout_publishes_false_witness:
  "\<not> truthy JNull
   \<and> user_cell (snd (onChange sample_env JNull signed_in)) = JBool False
   \<and> finalUser sample_getFriendlyPlanId (snd (onChange sample_env JNull signed_in))
        \<lparr>status = JStr ''loading'', data = JUndefined, error = JUndefined\<rparr> = Inr (JBool False)"
proof -
  have h: "\<not> truthy JNull" by simp
  from signout_publishes_false[OF h, of sample_env signed_in sample_getFriendlyPlanId
      "\<lparr>status = JStr ''loading'', data = JUndefined, error = JUndefined\<rparr>"]
  show ?thesis using h by blast
qed

end
